theory Spec2Isabelle
  imports Main "HOL-Library.Sublist"
begin

section \<open>Strings and thrown values\<close>

text \<open>
  The client is TypeScript. A string is modelled as a \<^typ>\<open>string\<close> (a list of 8-bit
  characters, a non-ASCII character being its UTF-8 bytes). Every string operation of the
  client (splitting at the line feed, testing for an ASCII prefix, dropping that prefix,
  concatenating) acts the same way on UTF-8 bytes as on the UTF-16 code units of the
  runtime, because the line feed and the prefix are ASCII.

  Everything the client throws is \<open>new Error(message)\<close>; the runtime adds
  \<open>DOMException\<close> (an aborted fetch), \<open>SyntaxError\<close> (\<open>JSON.parse\<close>) and
  \<open>TypeError\<close> (a failed network exchange, \<open>JSON.stringify\<close>). A function that may
  throw returns \<open>exn + 'a\<close>, \<open>Inl\<close> being the thrown value.
\<close>

datatype exn =
    Error string
  | DOMException string string  \<comment> \<open>message, name\<close>
  | SyntaxError string
  | TypeError string

definition newline :: char where
  "newline = CHR 0x0A"

text \<open>\<open>s.startsWith(p)\<close> and \<open>s.substring(n)\<close> (for \<open>n \<ge> 0\<close>).\<close>

definition startsWith :: "string \<Rightarrow> string \<Rightarrow> bool" where
  "startsWith s p = (take (length p) s = p)"

definition substring :: "string \<Rightarrow> nat \<Rightarrow> string" where
  "substring s n = drop n s"

text \<open>\<open>s.includes(sub)\<close>: \<open>sub\<close> occurs in \<open>s\<close> as a contiguous run.\<close>

fun includes_str :: "string \<Rightarrow> string \<Rightarrow> bool" where
  "includes_str [] sub = (sub = [])"
| "includes_str (c # cs) sub = (startsWith (c # cs) sub \<or> includes_str cs sub)"

text \<open>
  \<open>text.split("\n")\<close>: the pieces between the separators, in order; a text without a
  separator is one piece, and a text ending in the separator has an empty last piece.
\<close>

fun split :: "string \<Rightarrow> char \<Rightarrow> string list" where
  "split [] sep = [[]]"
| "split (c # cs) sep =
     (if c = sep then [] # split cs sep
      else (case split cs sep of
              [] \<Rightarrow> [[c]]
            | l # ls \<Rightarrow> (c # l) # ls))"

text \<open>
  \<open>xs.join(sep)\<close> as the runtime computes it: the result starts empty, and each element
  is appended, after the separator for every element but the first.
\<close>

fun join_loop :: "string list \<Rightarrow> string \<Rightarrow> nat \<Rightarrow> string \<Rightarrow> string" where
  "join_loop [] sep k R = R"
| "join_loop (x # xs) sep k R =
     join_loop xs sep (Suc k) ((if 0 < k then R @ sep else R) @ x)"

definition join :: "string list \<Rightarrow> string \<Rightarrow> string" where
  "join xs sep = join_loop xs sep 0 []"

section \<open>The event-stream decoder\<close>

text \<open>
  \<open>JSON.parse\<close> belongs to the runtime, not to the client: it is a parameter \<open>J\<close> of
  the model, a function from the text to the parsed value or to what it throws. The
  client only ever asks whether it throws.
\<close>

definition parses :: "(string \<Rightarrow> exn + 'v) \<Rightarrow> string \<Rightarrow> bool" where
  "parses J s = (case J s of Inl _ \<Rightarrow> False | Inr _ \<Rightarrow> True)"

text \<open>
  The first loop of \<open>parseSSEResponse\<close>: every line that starts with the six characters
  \<open>data: \<close> is pushed, without them, onto \<open>dataLines\<close>.
\<close>

fun collectDataLines :: "string list \<Rightarrow> string list \<Rightarrow> string list" where
  "collectDataLines [] dataLines = dataLines"
| "collectDataLines (line # lines) dataLines =
     collectDataLines lines
       (if startsWith line ''data: '' then dataLines @ [substring line 6] else dataLines)"

definition dataLinesOf :: "string \<Rightarrow> string list" where
  "dataLinesOf text = collectDataLines (split text newline) []"

text \<open>
  The second loop, \<open>for (let i = dataLines.length - 1; i >= 0; i--)\<close>: the argument
  \<open>n\<close> is \<open>i + 1\<close>, so that \<open>scanBack J dataLines (length dataLines)\<close> is the whole
  loop, and \<open>None\<close> means that the loop ended without returning.
\<close>

fun scanBack :: "(string \<Rightarrow> exn + 'v) \<Rightarrow> string list \<Rightarrow> nat \<Rightarrow> string option" where
  "scanBack J dataLines 0 = None"
| "scanBack J dataLines (Suc i) =
     (case J (dataLines ! i) of
        Inr _ \<Rightarrow> Some (dataLines ! i)
      | Inl _ \<Rightarrow> scanBack J dataLines i)"

definition NoDataField :: exn where
  "NoDataField = Error ''No data: field found in SSE response''"

definition parseSSEResponse :: "(string \<Rightarrow> exn + 'v) \<Rightarrow> string \<Rightarrow> exn + string" where
  "parseSSEResponse J text =
     (let dataLines = dataLinesOf text in
      if length dataLines = 0 then Inl NoDataField
      else (case scanBack J dataLines (length dataLines) of
              Some line \<Rightarrow> Inr line
            | None \<Rightarrow> Inr (join dataLines [])))"

section \<open>Numbers in template literals\<close>

text \<open>
  \<open>`${n}`\<close> converts the number \<open>n\<close> to a string. For an integer of magnitude at most
  \<open>2^53\<close> (each of them is a double) the runtime prints the decimal numeral, with a
  leading minus sign when negative; above, it prints the shortest digits that read back
  as the same double, and from \<open>10^21\<close> on it uses exponent notation.
  \<open>numberToString\<close> is the conversion on the first range. The client applies it there
  only: to the HTTP status (an unsigned short of the \<open>Response\<close> interface), to the
  timeout in seconds and, in the test fixtures, to a call id. The error code of an
  envelope can be any number, so the extractor takes the conversion of the runtime as a
  parameter \<open>N\<close>.
\<close>

fun natToString :: "nat \<Rightarrow> string" where
  "natToString n =
     (if n < 10 then [''0123456789'' ! n]
      else natToString (n div 10) @ [''0123456789'' ! (n mod 10)])"

declare natToString.simps [simp del]

definition numberToString :: "int \<Rightarrow> string" where
  "numberToString n = (if n < 0 then ''-'' @ natToString (nat (- n)) else natToString (nat n))"

section \<open>The response envelope and the content extractor\<close>

text \<open>
  The interfaces \<open>ExaSuccessResponse\<close> and \<open>ExaErrorResponse\<close> are object types, and
  \<open>extractTextContent\<close> tells them apart by the presence of the field \<open>error\<close>; an
  object may carry \<open>error\<close>, \<open>result\<close>, both or neither. A field that is optional or
  may be missing is an \<open>option\<close>; a field that is present has its declared type (so
  \<open>content\<close> is an array or absent, never \<open>null\<close>). The code is an integer-valued
  number. The type \<open>'u\<close> stands for \<open>unknown\<close>. What the extractor does with a decoded
  value that does not have these types is the subject of the next section.
\<close>

record ContentItem =
  item_type :: string
  item_text :: string

record 'u ToolDescriptor =
  tool_name :: string
  tool_description :: string
  inputSchema :: 'u

record 'u ResultObject =
  content :: "ContentItem list option"
  tools :: "'u ToolDescriptor list option"

record ErrorObject =
  code :: int
  message :: string

record 'u ExaResponse =
  jsonrpc :: string
  resp_id :: int
  error :: "ErrorObject option"
  result :: "'u ResultObject option"

definition ApiError :: "('n \<Rightarrow> string) \<Rightarrow> 'n \<Rightarrow> string \<Rightarrow> exn" where
  "ApiError N c m = Error (''Exa API error: '' @ N c @ '' - '' @ m)"

definition NoContent :: exn where
  "NoContent = Error ''No content in response''"

text \<open>
  \<open>extractTextContent\<close>: \<open>"error" in response\<close> is the presence of the field;
  \<open>result?.content\<close> is undefined when \<open>result\<close> or its \<open>content\<close> is missing, and an
  array, even an empty one, is truthy.
\<close>

definition extractTextContent :: "(int \<Rightarrow> string) \<Rightarrow> 'u ExaResponse \<Rightarrow> exn + string" where
  "extractTextContent N response =
     (case error response of
        Some e \<Rightarrow> Inl (ApiError N (code e) (message e))
      | None \<Rightarrow>
          (case (case result response of None \<Rightarrow> None | Some r \<Rightarrow> content r) of
             None \<Rightarrow> Inl NoContent
           | Some items \<Rightarrow>
               Inr (join (map item_text (filter (\<lambda>item. item_type item = ''text'') items))
                      [newline, newline])))"

section \<open>The content extractor on an unchecked value\<close>

text \<open>
  \<open>JSON.parse(text) as ExaResponse\<close> checks nothing: at run time the argument of
  \<open>extractTextContent\<close> is whatever JSON value the body held. \<open>'n json\<close> is such a value,
  \<open>'n\<close> being the numbers; the list of an object holds its own properties, one entry
  for each key.
\<close>

datatype 'n json =
    JNull
  | JBool bool
  | JNumber 'n
  | JString string
  | JArray "'n json list"
  | JObject "(string \<times> 'n json) list"

text \<open>
  \<open>v.k\<close> for a value \<open>v\<close> other than \<open>null\<close> and a key that no prototype defines (the
  extractor reads \<open>error\<close>, \<open>result\<close>, \<open>content\<close>, \<open>code\<close>, \<open>message\<close>, \<open>type\<close>,
  \<open>text\<close>): the own property of an object, and undefined (\<open>None\<close>) otherwise.
\<close>

definition getProp :: "'n json \<Rightarrow> string \<Rightarrow> 'n json option" where
  "getProp v k = (case v of JObject kvs \<Rightarrow> map_of kvs k | _ \<Rightarrow> None)"

text \<open>The first thrown value of a list of outcomes, or all the results.\<close>

fun sequence :: "(exn + 'a) list \<Rightarrow> exn + 'a list" where
  "sequence [] = Inr []"
| "sequence (Inl e # rs) = Inl e"
| "sequence (Inr x # rs) = (case sequence rs of Inl e \<Rightarrow> Inl e | Inr xs \<Rightarrow> Inr (x # xs))"

text \<open>
  The conversion of a value to a string, in a template literal and in \<open>join\<close>. An array
  is its elements joined by commas, \<open>null\<close> elements counting as empty. An object is
  \<open>[object Object]\<close>, unless it has an own property \<open>toString\<close>: a JSON value is not
  callable, the inherited \<open>valueOf\<close> returns the object itself, and the conversion
  throws a \<open>TypeError\<close>. (The message of a \<open>TypeError\<close> of the runtime is the engine's;
  the model writes one of its own.)
\<close>

fun toStr :: "('n \<Rightarrow> string) \<Rightarrow> 'n json \<Rightarrow> exn + string" where
  "toStr N JNull = Inr ''null''"
| "toStr N (JBool b) = Inr (if b then ''true'' else ''false'')"
| "toStr N (JNumber n) = Inr (N n)"
| "toStr N (JString s) = Inr s"
| "toStr N (JArray xs) =
     (case sequence (map (\<lambda>x. case x of JNull \<Rightarrow> Inr [] | _ \<Rightarrow> toStr N x) xs) of
        Inl e \<Rightarrow> Inl e
      | Inr ss \<Rightarrow> Inr (join ss '',''))"
| "toStr N (JObject kvs) =
     (if map_of kvs ''toString'' \<noteq> None
      then Inl (TypeError ''Cannot convert object to primitive value'')
      else Inr ''[object Object]'')"

definition toStrOpt :: "('n \<Rightarrow> string) \<Rightarrow> 'n json option \<Rightarrow> exn + string" where
  "toStrOpt N v = (case v of None \<Rightarrow> Inr ''undefined'' | Some x \<Rightarrow> toStr N x)"

text \<open>
  Truthiness: undefined, \<open>null\<close>, \<open>false\<close>, zero and the empty string are falsy. \<open>Z\<close>
  tells whether a number is zero.
\<close>

definition truthy :: "('n \<Rightarrow> bool) \<Rightarrow> 'n json option \<Rightarrow> bool" where
  "truthy Z v =
     (case v of
        None \<Rightarrow> False
      | Some JNull \<Rightarrow> False
      | Some (JBool b) \<Rightarrow> b
      | Some (JNumber n) \<Rightarrow> \<not> Z n
      | Some (JString s) \<Rightarrow> s \<noteq> []
      | Some _ \<Rightarrow> True)"

definition isTypeError :: "exn \<Rightarrow> bool" where
  "isTypeError e = (case e of TypeError m \<Rightarrow> True | _ \<Rightarrow> False)"

text \<open>
  \<open>extractTextContent\<close> on a JSON value. The operator \<open>in\<close> throws on a value that is
  not an object. Reading \<open>code\<close> of \<open>null\<close> throws; of any other value it gives the
  own property or undefined, and the template literal converts it. \<open>result?.content\<close>
  is undefined when \<open>result\<close> is undefined or \<open>null\<close>. A truthy \<open>content\<close> that is not
  an array has no \<open>filter\<close> to call. The callback of \<open>filter\<close> throws on a \<open>null\<close>
  item and on no other; \<open>join\<close> takes an undefined or \<open>null\<close> text as empty and
  converts any other.
\<close>

definition extractTextContentRaw ::
  "('n \<Rightarrow> string) \<Rightarrow> ('n \<Rightarrow> bool) \<Rightarrow> 'n json \<Rightarrow> exn + string" where
  "extractTextContentRaw N Z response =
     (case response of
        JObject _ \<Rightarrow>
          (case getProp response ''error'' of
             Some err \<Rightarrow>
               (case err of
                  JNull \<Rightarrow> Inl (TypeError ''Cannot read properties of null'')
                | _ \<Rightarrow>
                    (case toStrOpt N (getProp err ''code'') of
                       Inl e \<Rightarrow> Inl e
                     | Inr c \<Rightarrow>
                         (case toStrOpt N (getProp err ''message'') of
                            Inl e \<Rightarrow> Inl e
                          | Inr m \<Rightarrow> Inl (Error (''Exa API error: '' @ c @ '' - '' @ m)))))
           | None \<Rightarrow>
               (let content =
                      (case getProp response ''result'' of
                         None \<Rightarrow> None
                       | Some JNull \<Rightarrow> None
                       | Some r \<Rightarrow> getProp r ''content'')
                in if \<not> truthy Z content then Inl NoContent
                   else (case content of
                           Some (JArray items) \<Rightarrow>
                             if JNull \<in> set items
                             then Inl (TypeError ''Cannot read properties of null'')
                             else (case sequence
                                          (map (\<lambda>item. case getProp item ''text'' of
                                                          None \<Rightarrow> Inr []
                                                        | Some JNull \<Rightarrow> Inr []
                                                        | Some t \<Rightarrow> toStr N t)
                                             (filter (\<lambda>item. getProp item ''type''
                                                               = Some (JString ''text''))
                                                items)) of
                                     Inl e \<Rightarrow> Inl e
                                   | Inr texts \<Rightarrow> Inr (join texts [newline, newline]))
                         | _ \<Rightarrow> Inl (TypeError ''result.content.filter is not a function''))))
      | JArray _ \<Rightarrow> Inl NoContent
      | _ \<Rightarrow> Inl (TypeError ''Cannot use the in operator on a primitive value''))"

text \<open>
  The JSON value that an envelope of the declared types is at run time, its numbers
  being integers.
\<close>

definition embedItem :: "ContentItem \<Rightarrow> int json" where
  "embedItem item =
     JObject [(''type'', JString (item_type item)), (''text'', JString (item_text item))]"

definition embedTool :: "int json ToolDescriptor \<Rightarrow> int json" where
  "embedTool t =
     JObject [(''name'', JString (tool_name t)), (''description'', JString (tool_description t)),
              (''inputSchema'', inputSchema t)]"

definition embedResult :: "int json ResultObject \<Rightarrow> int json" where
  "embedResult r =
     JObject ((case content r of
                 None \<Rightarrow> []
               | Some items \<Rightarrow> [(''content'', JArray (map embedItem items))])
              @ (case tools r of
                   None \<Rightarrow> []
                 | Some ts \<Rightarrow> [(''tools'', JArray (map embedTool ts))]))"

definition embedError :: "ErrorObject \<Rightarrow> int json" where
  "embedError e = JObject [(''code'', JNumber (code e)), (''message'', JString (message e))]"

definition embedResponse :: "int json ExaResponse \<Rightarrow> int json" where
  "embedResponse response =
     JObject ([(''jsonrpc'', JString (jsonrpc response)), (''id'', JNumber (resp_id response))]
              @ (case error response of None \<Rightarrow> [] | Some e \<Rightarrow> [(''error'', embedError e)])
              @ (case result response of None \<Rightarrow> [] | Some r \<Rightarrow> [(''result'', embedResult r)]))"

definition isZero :: "int \<Rightarrow> bool" where
  "isZero n = (n = 0)"

section \<open>The call\<close>

definition EXA_BASE_URL :: string where
  "EXA_BASE_URL = ''https://mcp.exa.ai/mcp''"

definition EXA_TOOLS :: string where
  "EXA_TOOLS =
     join [''web_search_exa'', ''web_search_advanced_exa'', ''get_code_context_exa'',
           ''company_research_exa'', ''people_search_exa''] '',''"

definition EXA_URL :: string where
  "EXA_URL = EXA_BASE_URL @ ''?tools='' @ EXA_TOOLS"

definition REQUEST_TIMEOUT_MS :: int where
  "REQUEST_TIMEOUT_MS = 30000"

record 'p ExaRequest =
  req_jsonrpc :: string
  req_id :: int
  req_method :: string
  req_params :: "'p option"

record RequestInit =
  http_method :: string
  headers :: "(string \<times> string) list"
  body :: string

text \<open>
  What \<open>fetchFn\<close> resolves to: \<open>text_result\<close> is the outcome of \<open>response.text()\<close>,
  which may itself reject.
\<close>

record Response =
  ok :: bool
  status :: int
  statusText :: string
  text_result :: "exn + string"

text \<open>
  The module has one mutable binding, \<open>let requestIdCounter = 0\<close>; everything else at
  module level is a constant. The state of a process is therefore this counter alone.
\<close>

record ClientState =
  requestIdCounter :: int

definition initialState :: ClientState where
  "initialState = \<lparr>requestIdCounter = 0\<rparr>"

text \<open>
  \<open>++requestIdCounter\<close>. The counter is a \<open>number\<close>, an IEEE double: adding one is
  exact up to \<open>2^53\<close>, and \<open>2^53 + 1\<close> rounds back to \<open>2^53\<close> (the tie goes to the even
  mantissa). The equation is the runtime's for \<open>0 \<le> n \<le> 2^53\<close>, the only values the
  counter takes.
\<close>

definition increment :: "int \<Rightarrow> int" where
  "increment n = (if n < 2 ^ 53 then n + 1 else n)"

text \<open>
  What the \<open>catch\<close> clause of \<open>callExa\<close> throws for a caught value.
\<close>

definition Timeout :: exn where
  "Timeout =
     Error (''Exa request timed out after '' @ numberToString (REQUEST_TIMEOUT_MS div 1000)
            @ ''s'')"

definition HttpError :: "int \<Rightarrow> string \<Rightarrow> exn" where
  "HttpError st reason = Error (''HTTP error: '' @ numberToString st @ '' '' @ reason)"

text \<open>
  The test of the \<open>catch\<close> clause, \<open>error instanceof DOMException && error.name ===
  "AbortError"\<close>, and the options of the request.
\<close>

definition isAbortError :: "exn \<Rightarrow> bool" where
  "isAbortError err =
     (case err of DOMException m name \<Rightarrow> name = ''AbortError'' | _ \<Rightarrow> False)"

definition requestInit :: "string \<Rightarrow> RequestInit" where
  "requestInit b =
     \<lparr>http_method = ''POST'',
      headers = [(''Content-Type'', ''application/json''),
                 (''Accept'', ''application/json, text/event-stream'')],
      body = b\<rparr>"

text \<open>
  \<open>callExa\<close>. The runtime's \<open>JSON.stringify\<close> (\<open>S\<close>), \<open>JSON.parse\<close> (\<open>J\<close>) and the
  injected \<open>fetchFn\<close> are parameters. The abort signal and its timer are not modelled:
  an exchange cancelled by the abort controller is a \<open>fetchFn\<close>, or a \<open>text()\<close>, that
  rejects with a \<open>DOMException\<close> named \<open>AbortError\<close>. The request envelope is local to
  the call; the model returns it beside the outcome, because the envelope is what the
  call sends. The counter is incremented before the first suspension point, so calls
  that overlap in time take their ids in the order in which they were invoked.
\<close>

definition callExa ::
  "('p ExaRequest \<Rightarrow> exn + string) \<Rightarrow> (string \<Rightarrow> exn + 'v) \<Rightarrow>
   (string \<Rightarrow> RequestInit \<Rightarrow> exn + Response) \<Rightarrow>
   string \<Rightarrow> 'p option \<Rightarrow> ClientState \<Rightarrow> ('p ExaRequest \<times> (exn + 'v)) \<times> ClientState" where
  "callExa S J fetchFn method params st =
     (let requestId = increment (requestIdCounter st);
          st' = st\<lparr>requestIdCounter := requestId\<rparr>;
          request = \<lparr>req_jsonrpc = ''2.0'', req_id = requestId, req_method = method,
                     req_params = params\<rparr>;
          attempt =
            (case S request of
               Inl e \<Rightarrow> Inl e
             | Inr b \<Rightarrow>
                 (case fetchFn EXA_URL (requestInit b) of
                    Inl e \<Rightarrow> Inl e
                  | Inr response \<Rightarrow>
                      if \<not> ok response
                      then Inl (HttpError (status response) (statusText response))
                      else (case text_result response of
                              Inl e \<Rightarrow> Inl e
                            | Inr text \<Rightarrow>
                                (case J text of
                                   Inr v \<Rightarrow> Inr v
                                 | Inl _ \<Rightarrow>
                                     (case parseSSEResponse J text of
                                        Inl e \<Rightarrow> Inl e
                                      | Inr jsonData \<Rightarrow> J jsonData)))));
          outcome =
            (case attempt of
               Inr v \<Rightarrow> Inr v
             | Inl err \<Rightarrow> if isAbortError err then Inl Timeout else Inl err)
      in ((request, outcome), st'))"

text \<open>
  When the exchange of a call is cancelled: \<open>fetchFn\<close> rejects with the abort error, or
  it resolved with a success status and the pending \<open>text()\<close> rejects with it.
\<close>

definition aborted :: "exn + Response \<Rightarrow> bool" where
  "aborted exchange =
     (case exchange of
        Inl e \<Rightarrow> isAbortError e
      | Inr response \<Rightarrow>
          ok response \<and> (case text_result response of Inl e \<Rightarrow> isAbortError e | Inr _ \<Rightarrow> False))"

text \<open>
  A process lifetime: successive invocations, each with its own method, arguments and
  \<open>fetchFn\<close>, the state of one being handed to the next. The result lists, in call
  order, the envelope and the outcome of every call.
\<close>

fun callSequence ::
  "('p ExaRequest \<Rightarrow> exn + string) \<Rightarrow> (string \<Rightarrow> exn + 'v) \<Rightarrow>
   (string \<times> 'p option \<times> (string \<Rightarrow> RequestInit \<Rightarrow> exn + Response)) list \<Rightarrow>
   ClientState \<Rightarrow> ('p ExaRequest \<times> (exn + 'v)) list" where
  "callSequence S J [] st = []"
| "callSequence S J ((method, params, fetchFn) # calls) st =
     (case callExa S J fetchFn method params st of
        (r, st') \<Rightarrow> r # callSequence S J calls st')"

definition callIds ::
  "('p ExaRequest \<Rightarrow> exn + string) \<Rightarrow> (string \<Rightarrow> exn + 'v) \<Rightarrow>
   (string \<times> 'p option \<times> (string \<Rightarrow> RequestInit \<Rightarrow> exn + Response)) list \<Rightarrow>
   ClientState \<Rightarrow> int list" where
  "callIds S J calls st = map (\<lambda>r. req_id (fst r)) (callSequence S J calls st)"

section \<open>A JSON recogniser, to run the decoder on concrete bodies\<close>

text \<open>
  The theorems below hold for every \<open>JSON.parse\<close>. To run the decoder on a concrete
  body, \<open>jsonText\<close> stands in for the runtime's parser: it accepts the texts of the
  JSON grammar (ECMA-404: objects, arrays, strings with their escapes, numbers, the three
  literals, white space around every token) and returns the text itself as the value.
  The fuel of \<open>json_value\<close> bounds the number of values read, which the length of the
  text exceeds by one at most.
\<close>

definition is_ws :: "char \<Rightarrow> bool" where
  "is_ws c = (c = CHR '' '' \<or> c = CHR 0x09 \<or> c = CHR 0x0A \<or> c = CHR 0x0D)"

definition is_digit :: "char \<Rightarrow> bool" where
  "is_digit c = (c \<in> set ''0123456789'')"

definition is_hex :: "char \<Rightarrow> bool" where
  "is_hex c = (c \<in> set ''0123456789abcdefABCDEF'')"

fun skip_ws :: "string \<Rightarrow> string" where
  "skip_ws [] = []"
| "skip_ws (c # cs) = (if is_ws c then skip_ws cs else c # cs)"

fun skip_digits :: "string \<Rightarrow> string" where
  "skip_digits [] = []"
| "skip_digits (c # cs) = (if is_digit c then skip_digits cs else c # cs)"

text \<open>The rest of a string after its opening quote: \<open>None\<close> when it is malformed.\<close>

fun json_string :: "string \<Rightarrow> string option" where
  "json_string [] = None"
| "json_string [c] = (if c = CHR 0x22 then Some [] else None)"
| "json_string (c # e # cs) =
     (if c = CHR 0x22 then Some (e # cs)
      else if c = CHR 0x5C then
        (if e \<in> set [CHR 0x22, CHR 0x5C, CHR ''/'', CHR ''b'', CHR ''f'', CHR ''n'', CHR ''r'',
                      CHR ''t'']
         then json_string cs
         else if e = CHR ''u'' \<and> 4 \<le> length cs \<and> list_all is_hex (take 4 cs)
         then json_string (drop 4 cs)
         else None)
      else if (of_char c :: nat) < 32 then None
      else json_string (e # cs))"

definition json_exponent :: "string \<Rightarrow> string option" where
  "json_exponent cs =
     (case cs of
        [] \<Rightarrow> Some []
      | c # r \<Rightarrow>
          if c = CHR ''e'' \<or> c = CHR ''E'' then
            (let r' = (case r of [] \<Rightarrow> [] | s # t \<Rightarrow> if s = CHR ''+'' \<or> s = CHR ''-'' then t else r)
             in case r' of
                  [] \<Rightarrow> None
                | d # t \<Rightarrow> if is_digit d then Some (skip_digits t) else None)
          else Some cs)"

definition json_fraction :: "string \<Rightarrow> string option" where
  "json_fraction cs =
     (case cs of
        [] \<Rightarrow> Some []
      | c # r \<Rightarrow>
          if c = CHR ''.'' then
            (case r of
               [] \<Rightarrow> None
             | d # t \<Rightarrow> if is_digit d then json_exponent (skip_digits t) else None)
          else json_exponent cs)"

definition json_number :: "string \<Rightarrow> string option" where
  "json_number cs =
     (let r = (case cs of [] \<Rightarrow> [] | c # t \<Rightarrow> if c = CHR ''-'' then t else cs)
      in case r of
           [] \<Rightarrow> None
         | d # t \<Rightarrow>
             if d = CHR ''0'' then json_fraction t
             else if is_digit d then json_fraction (skip_digits t)
             else None)"

fun json_value :: "nat \<Rightarrow> string \<Rightarrow> string option"
  and json_elements :: "nat \<Rightarrow> string \<Rightarrow> string option"
  and json_members :: "nat \<Rightarrow> string \<Rightarrow> string option" where
  "json_value 0 cs = None"
| "json_value (Suc n) cs =
     (case skip_ws cs of
        [] \<Rightarrow> None
      | c # r \<Rightarrow>
          if c = CHR ''{'' then
            (case skip_ws r of
               [] \<Rightarrow> None
             | d # r' \<Rightarrow> if d = CHR ''}'' then Some r' else json_members n r)
          else if c = CHR ''['' then
            (case skip_ws r of
               [] \<Rightarrow> None
             | d # r' \<Rightarrow> if d = CHR '']'' then Some r' else json_elements n r)
          else if c = CHR 0x22 then json_string r
          else if startsWith (c # r) ''true'' then Some (drop 4 (c # r))
          else if startsWith (c # r) ''false'' then Some (drop 5 (c # r))
          else if startsWith (c # r) ''null'' then Some (drop 4 (c # r))
          else json_number (c # r))"
| "json_elements 0 cs = None"
| "json_elements (Suc n) cs =
     (case json_value n cs of
        None \<Rightarrow> None
      | Some r \<Rightarrow>
          (case skip_ws r of
             [] \<Rightarrow> None
           | c # r' \<Rightarrow>
               if c = CHR '','' then json_elements n r'
               else if c = CHR '']'' then Some r'
               else None))"
| "json_members 0 cs = None"
| "json_members (Suc n) cs =
     (case skip_ws cs of
        [] \<Rightarrow> None
      | q # r \<Rightarrow>
          if q = CHR 0x22 then
            (case json_string r of
               None \<Rightarrow> None
             | Some r1 \<Rightarrow>
                 (case skip_ws r1 of
                    [] \<Rightarrow> None
                  | c # r2 \<Rightarrow>
                      if c = CHR '':'' then
                        (case json_value n r2 of
                           None \<Rightarrow> None
                         | Some r3 \<Rightarrow>
                             (case skip_ws r3 of
                                [] \<Rightarrow> None
                              | d # r4 \<Rightarrow>
                                  if d = CHR '','' then json_members n r4
                                  else if d = CHR ''}'' then Some r4
                                  else None))
                      else None))
          else None)"

definition isJSON :: "string \<Rightarrow> bool" where
  "isJSON s = (case json_value (Suc (length s)) s of None \<Rightarrow> False | Some r \<Rightarrow> skip_ws r = [])"

definition jsonText :: "string \<Rightarrow> exn + string" where
  "jsonText s = (if isJSON s then Inr s else Inl (SyntaxError ''Unexpected token''))"

section \<open>The fetch functions of the test suite\<close>

text \<open>
  \<open>mockFetch(body, status)\<close> of the tests, for a string body, and the \<open>fetchFn\<close> of
  the timeout test, which rejects with an abort error. \<open>stringifyRequest\<close> stands in for
  \<open>JSON.stringify\<close> on an envelope without arguments whose method name needs no
  escaping. \<open>toolsCall\<close> is the call of the timeout test: the method \<open>tools/call\<close>, no
  arguments, and the rejecting \<open>fetchFn\<close>.
\<close>

definition mockFetch :: "string \<Rightarrow> int \<Rightarrow> string \<Rightarrow> RequestInit \<Rightarrow> exn + Response" where
  "mockFetch b st url init =
     Inr \<lparr>ok = (200 \<le> st \<and> st < 300), status = st,
          statusText = (if st = 200 then ''OK'' else ''Bad Request''),
          text_result = Inr b\<rparr>"

definition abortingFetch :: "string \<Rightarrow> RequestInit \<Rightarrow> exn + Response" where
  "abortingFetch url init = Inl (DOMException ''The operation was aborted'' ''AbortError'')"

definition stringifyRequest :: "unit ExaRequest \<Rightarrow> exn + string" where
  "stringifyRequest request =
     Inr (''{'' @ [CHR 0x22] @ ''jsonrpc'' @ [CHR 0x22] @ '':'' @ [CHR 0x22] @ req_jsonrpc request
          @ [CHR 0x22] @ '','' @ [CHR 0x22] @ ''id'' @ [CHR 0x22] @ '':''
          @ numberToString (req_id request)
          @ '','' @ [CHR 0x22] @ ''method'' @ [CHR 0x22] @ '':'' @ [CHR 0x22] @ req_method request
          @ [CHR 0x22] @ ''}'')"

definition toolsCall :: "string \<times> unit option \<times> (string \<Rightarrow> RequestInit \<Rightarrow> exn + Response)" where
  "toolsCall = (''tools/call'', None, abortingFetch)"

section \<open>The specification's wording, for comparison\<close>

text \<open>
  The candidate list as the specification words it: the lines beginning with the marker
  \<open>data:\<close>, with the marker and a following space stripped.
\<close>

definition spec_strip_marker :: "string \<Rightarrow> string" where
  "spec_strip_marker line =
     (let rest = drop 5 line in if startsWith rest '' '' then drop 1 rest else rest)"

definition spec_candidates :: "string \<Rightarrow> string list" where
  "spec_candidates text =
     map spec_strip_marker (filter (\<lambda>line. startsWith line ''data:'') (split text newline))"

text \<open>
  Joining as the specification words it: the items in order, with the separator between
  each two neighbours and nowhere else.
\<close>

fun joined_with :: "string \<Rightarrow> string list \<Rightarrow> string" where
  "joined_with sep [] = []"
| "joined_with sep [x] = x"
| "joined_with sep (x # y # ys) = x @ sep @ joined_with sep (y # ys)"

section \<open>Lines, joining and the two loops of the decoder\<close>

lemma collectDataLines_eq:
  "collectDataLines lines acc =
     acc @ map (\<lambda>l. substring l 6) (filter (\<lambda>l. startsWith l ''data: '') lines)"
  by (induction lines arbitrary: acc) simp_all

lemma split_not_Nil: "split s sep \<noteq> []"
  by (induction s) (simp_all split: list.splits)

lemma split_lines_free: "l \<in> set (split s sep) \<Longrightarrow> sep \<notin> set l"
  by (induction s arbitrary: l) (auto split: if_splits list.splits)

lemma join_loop_pos:
  "0 < k \<Longrightarrow> join_loop xs sep k R = R @ concat (map (\<lambda>x. sep @ x) xs)"
  by (induction xs arbitrary: k R) simp_all

lemma join_Cons: "join (x # xs) sep = x @ concat (map (\<lambda>y. sep @ y) xs)"
  by (simp add: join_def join_loop_pos)

lemma join_Nil: "join [] sep = []"
  by (simp add: join_def)

lemma join_joined_with: "join xs sep = joined_with sep xs"
proof (induction sep xs rule: joined_with.induct)
  case (3 sep x y ys)
  then show ?case by (simp add: join_Cons)
qed (simp_all add: join_Cons join_Nil)

lemma join_empty_sep: "join xs [] = concat xs"
  by (cases xs) (simp_all add: join_Nil join_Cons)

lemma split_join: "join (split s sep) [sep] = s"
proof (induction s)
  case Nil
  show ?case by (simp add: join_Cons)
next
  case (Cons c s)
  obtain l ls where sp: "split s sep = l # ls"
    using split_not_Nil [of s sep] by (cases "split s sep") auto
  with Cons show ?case by (simp add: join_Cons)
qed

lemma scanBack_None:
  "scanBack J ds n = None \<longleftrightarrow> (\<forall>i<n. \<not> parses J (ds ! i))"
  by (induction n) (auto simp: parses_def less_Suc_eq split: sum.splits)

lemma scanBack_Some:
  "scanBack J ds n = Some x \<Longrightarrow>
     \<exists>i<n. x = ds ! i \<and> parses J (ds ! i) \<and> (\<forall>j. i < j \<and> j < n \<longrightarrow> \<not> parses J (ds ! j))"
proof (induction n)
  case 0
  then show ?case by simp
next
  case (Suc n)
  show ?case
  proof (cases "parses J (ds ! n)")
    case True
    with Suc.prems have "x = ds ! n"
      by (auto simp: parses_def split: sum.splits)
    with True show ?thesis
      by (intro exI [of _ n]) auto
  next
    case False
    with Suc.prems have "scanBack J ds n = Some x"
      by (auto simp: parses_def split: sum.splits)
    from Suc.IH [OF this] obtain i where i: "i < n" "x = ds ! i" "parses J (ds ! i)"
      "\<forall>j. i < j \<and> j < n \<longrightarrow> \<not> parses J (ds ! j)" by blast
    with False show ?thesis
      by (intro exI [of _ i]) (auto simp: less_Suc_eq)
  qed
qed

lemma last_filter_nth:
  "i < length ds \<Longrightarrow> P (ds ! i) \<Longrightarrow> (\<forall>j. i < j \<and> j < length ds \<longrightarrow> \<not> P (ds ! j)) \<Longrightarrow>
     last (filter P ds) = ds ! i"
proof (induction ds arbitrary: i rule: rev_induct)
  case Nil
  then show ?case by simp
next
  case (snoc x xs)
  show ?case
  proof (cases "i = length xs")
    case True
    with snoc.prems show ?thesis by simp
  next
    case False
    with snoc.prems have i: "i < length xs" by simp
    from snoc.prems(3) i have nx: "\<not> P x"
      by (auto dest: spec [of _ "length xs"])
    have "\<forall>j. i < j \<and> j < length xs \<longrightarrow> \<not> P (xs ! j)"
    proof (intro allI impI)
      fix j assume j: "i < j \<and> j < length xs"
      with snoc.prems(3) have "\<not> P ((xs @ [x]) ! j)" by simp
      with j show "\<not> P (xs ! j)" by (simp add: nth_append)
    qed
    with snoc.IH [of i] i snoc.prems(2) have "last (filter P xs) = xs ! i"
      by (simp add: nth_append)
    with nx i show ?thesis by (simp add: nth_append)
  qed
qed

lemma dataLinesOf_eq:
  "dataLinesOf text =
     map (\<lambda>line. substring line 6)
       (filter (\<lambda>line. startsWith line ''data: '') (split text newline))"
  by (simp add: dataLinesOf_def collectDataLines_eq)

section \<open>The decoder\<close>

text \<open>
  C1. Whenever at least one candidate of the body parses, \<open>parseSSEResponse\<close> returns a
  candidate that parses and after which, in the original order, no candidate parses: the
  last parseable candidate, whatever unparseable candidates follow it. In particular, a
  body whose only \<open>data: \<close> line carries valid JSON yields that JSON text exactly. (The
  claim's premise that the whole body does not parse is not needed.)
\<close>

theorem parseSSEResponse_last_valid:
  assumes "\<exists>c \<in> set (dataLinesOf text). parses J c"
  shows "(\<exists>i < length (dataLinesOf text).
            parseSSEResponse J text = Inr (dataLinesOf text ! i) \<and>
            parses J (dataLinesOf text ! i) \<and>
            (\<forall>j. i < j \<and> j < length (dataLinesOf text) \<longrightarrow> \<not> parses J (dataLinesOf text ! j)))
         \<and> parseSSEResponse J text = Inr (last (filter (parses J) (dataLinesOf text)))
         \<and> (\<forall>c. filter (\<lambda>line. startsWith line ''data: '') (split text newline) = [''data: '' @ c]
                \<longrightarrow> parseSSEResponse J text = Inr c)"
proof -
  define ds where "ds = dataLinesOf text"
  from assms obtain k where k: "k < length ds" "parses J (ds ! k)"
    unfolding ds_def by (auto simp: in_set_conv_nth)
  then have "scanBack J ds (length ds) \<noteq> None"
    by (auto simp: scanBack_None)
  then obtain x where x: "scanBack J ds (length ds) = Some x" by blast
  from scanBack_Some [OF x] obtain i where i: "i < length ds" "x = ds ! i"
    "parses J (ds ! i)" "\<forall>j. i < j \<and> j < length ds \<longrightarrow> \<not> parses J (ds ! j)" by blast
  from k have ne: "length ds \<noteq> 0" by auto
  have res: "parseSSEResponse J text = Inr (ds ! i)"
    using x i(2) ne by (simp add: parseSSEResponse_def ds_def [symmetric])
  have lastf: "last (filter (parses J) ds) = ds ! i"
    using i by (intro last_filter_nth) auto
  have one: "parseSSEResponse J text = Inr c"
    if "filter (\<lambda>line. startsWith line ''data: '') (split text newline) = [''data: '' @ c]" for c
  proof -
    from that have "ds = [c]"
      by (simp add: ds_def dataLinesOf_eq substring_def)
    with i(1) res show ?thesis by simp
  qed
  have A: "\<exists>i < length ds. parseSSEResponse J text = Inr (ds ! i) \<and> parses J (ds ! i) \<and>
            (\<forall>j. i < j \<and> j < length ds \<longrightarrow> \<not> parses J (ds ! j))"
    using i res by (intro exI [of _ i]) simp
  have B: "parseSSEResponse J text = Inr (last (filter (parses J) ds))"
    using res lastf by simp
  from A B one show ?thesis
    unfolding ds_def by (intro conjI allI impI)
qed

theorem parseSSEResponse_last_valid_witness:
  \<open>(\<exists>c \<in> set (dataLinesOf ''event: message\<newline>data: {"a":1}\<newline>data: {"b":[true,null]}\<newline>data: {"c":\<newline>'').
       parses jsonText c)
   \<and> dataLinesOf ''event: message\<newline>data: {"a":1}\<newline>data: {"b":[true,null]}\<newline>data: {"c":\<newline>''
       = [''{"a":1}'', ''{"b":[true,null]}'', ''{"c":'']
   \<and> parseSSEResponse jsonText
        ''event: message\<newline>data: {"a":1}\<newline>data: {"b":[true,null]}\<newline>data: {"c":\<newline>''
       = Inr ''{"b":[true,null]}''\<close>
proof -
  let ?T = \<open>''event: message\<newline>data: {"a":1}\<newline>data: {"b":[true,null]}\<newline>data: {"c":\<newline>''\<close>
  have h: "\<exists>c \<in> set (dataLinesOf ?T). parses jsonText c"
    by code_simp
  have ds: \<open>dataLinesOf ?T = [''{"a":1}'', ''{"b":[true,null]}'', ''{"c":'']\<close>
    by code_simp
  have l: \<open>last (filter (parses jsonText) (dataLinesOf ?T)) = ''{"b":[true,null]}''\<close>
    by code_simp
  from parseSSEResponse_last_valid [OF h]
  have "parseSSEResponse jsonText ?T = Inr (last (filter (parses jsonText) (dataLinesOf ?T)))"
    by (rule conjunct1 [OF conjunct2])
  with l have r: \<open>parseSSEResponse jsonText ?T = Inr ''{"b":[true,null]}''\<close>
    by (simp only:)
  from h ds r show ?thesis
    by (intro conjI)
qed

text \<open>
  C2, as the specification words it, fails: a line that begins with the marker \<open>data:\<close>
  but has no space after it is not retained. The body \<open>data:{}\<close> is one such line; it
  does not parse as JSON, the wording gives it the candidate \<open>{}\<close>, and the decoder
  finds no candidate at all.
\<close>

theorem candidates_marker_without_space:
  "startsWith ''data:{}'' ''data:'' \<and>
   split ''data:{}'' newline = [''data:{}''] \<and>
   spec_candidates ''data:{}'' = [''{}''] \<and>
   dataLinesOf ''data:{}'' = [] \<and>
   \<not> parses jsonText ''data:{}'' \<and>
   parseSSEResponse jsonText ''data:{}'' = Inl NoDataField"
  by code_simp

text \<open>
  C2, amended. The candidate list consists of exactly the lines that begin with the six
  characters \<open>data: \<close> (the marker and one space), each without these six characters,
  in the original line order; every other line is ignored.
\<close>

theorem dataLinesOf_prefix_with_space:
  "dataLinesOf text =
     map (\<lambda>line. substring line 6)
       (filter (\<lambda>line. startsWith line ''data: '') (split text newline))
   \<and> (\<forall>line. startsWith line ''data: '' \<longrightarrow> line = ''data: '' @ substring line 6)"
proof (intro conjI allI impI)
  fix line
  assume "startsWith line ''data: ''"
  then have "take (length ''data: '') line = ''data: ''"
    by (simp only: startsWith_def)
  moreover have "length ''data: '' = 6" by simp
  ultimately have "take 6 line = ''data: ''" by (simp only:)
  then show "line = ''data: '' @ substring line 6"
    unfolding substring_def by (metis append_take_drop_id)
qed (rule dataLinesOf_eq)

theorem dataLinesOf_prefix_with_space_witness:
  \<open>startsWith ''data: {"a":1}'' ''data: '' \<and>
   ''data: {"a":1}'' = ''data: '' @ substring ''data: {"a":1}'' 6 \<and>
   dataLinesOf ''event: message\<newline>data: {"a":1}\<newline>id: 7\<newline>data: x\<newline>'' = [''{"a":1}'', ''x'']\<close>
proof -
  have h: \<open>startsWith ''data: {"a":1}'' ''data: ''\<close>
    by code_simp
  have v: \<open>map (\<lambda>line. substring line 6)
       (filter (\<lambda>line. startsWith line ''data: '')
          (split ''event: message\<newline>data: {"a":1}\<newline>id: 7\<newline>data: x\<newline>'' newline))
     = [''{"a":1}'', ''x'']\<close>
    by code_simp
  note t = dataLinesOf_prefix_with_space
         [of \<open>''event: message\<newline>data: {"a":1}\<newline>id: 7\<newline>data: x\<newline>''\<close>]
  from t v have d: \<open>dataLinesOf ''event: message\<newline>data: {"a":1}\<newline>id: 7\<newline>data: x\<newline>''
      = [''{"a":1}'', ''x'']\<close>
    by (simp only:)
  from t h have e: \<open>''data: {"a":1}'' = ''data: '' @ substring ''data: {"a":1}'' 6\<close>
    by blast
  from h e d show ?thesis
    by (intro conjI)
qed

text \<open>
  C6. With at least one candidate and none that parses, \<open>parseSSEResponse\<close> returns the
  concatenation of all candidates in their original order; it does not fail.
\<close>

theorem parseSSEResponse_fallback:
  assumes "dataLinesOf text \<noteq> []" and "\<forall>c \<in> set (dataLinesOf text). \<not> parses J c"
  shows "parseSSEResponse J text = Inr (concat (dataLinesOf text))"
proof -
  from assms(2) have "scanBack J (dataLinesOf text) (length (dataLinesOf text)) = None"
    by (simp add: scanBack_None)
  with assms(1) show ?thesis
    by (simp add: parseSSEResponse_def join_empty_sep)
qed

theorem parseSSEResponse_fallback_witness:
  "dataLinesOf ''data: not-json-a\<newline>data: not-json-b\<newline>'' = [''not-json-a'', ''not-json-b''] \<and>
   \<not> parses jsonText ''not-json-a'' \<and>
   \<not> parses jsonText ''not-json-b'' \<and>
   parseSSEResponse jsonText ''data: not-json-a\<newline>data: not-json-b\<newline>''
     = Inr ''not-json-anot-json-b''"
proof -
  let ?T = "''data: not-json-a\<newline>data: not-json-b\<newline>''"
  have ds: "dataLinesOf ?T = [''not-json-a'', ''not-json-b'']" by code_simp
  have a: "\<not> parses jsonText ''not-json-a''" by code_simp
  have b: "\<not> parses jsonText ''not-json-b''" by code_simp
  have h1: "dataLinesOf ?T \<noteq> []" by (simp only: ds) simp
  have h2: "\<forall>c \<in> set (dataLinesOf ?T). \<not> parses jsonText c"
    using a b by (simp only: ds) simp
  have "concat (dataLinesOf ?T) = ''not-json-anot-json-b''" by (simp only: ds) simp
  with parseSSEResponse_fallback [OF h1 h2]
  have r: "parseSSEResponse jsonText ?T = Inr ''not-json-anot-json-b''"
    by (simp only:)
  from ds a b r show ?thesis
    by (intro conjI)
qed

text \<open>
  C7. \<open>parseSSEResponse\<close> fails exactly when the body has no candidate, the failure is
  then the \<open>NoDataField\<close> error, and with at least one candidate it returns a string.
\<close>

theorem parseSSEResponse_fails_iff:
  "((\<exists>e. parseSSEResponse J text = Inl e) \<longleftrightarrow> dataLinesOf text = []) \<and>
   (\<forall>e. parseSSEResponse J text = Inl e \<longrightarrow> e = NoDataField) \<and>
   (dataLinesOf text \<noteq> [] \<longrightarrow> (\<exists>s. parseSSEResponse J text = Inr s))"
  by (auto simp: parseSSEResponse_def Let_def split: option.splits)

theorem parseSSEResponse_fails_iff_witness:
  "dataLinesOf ''event: message\<newline>'' = [] \<and>
   parseSSEResponse jsonText ''event: message\<newline>'' = Inl NoDataField \<and>
   dataLinesOf ''data: x'' \<noteq> [] \<and>
   (\<exists>s. parseSSEResponse jsonText ''data: x'' = Inr s)"
proof -
  have e: "dataLinesOf ''event: message\<newline>'' = []" by code_simp
  have n: "dataLinesOf ''data: x'' \<noteq> []" by code_simp
  from parseSSEResponse_fails_iff [of jsonText "''event: message\<newline>''"] e
  have "parseSSEResponse jsonText ''event: message\<newline>'' = Inl NoDataField"
    by blast
  with parseSSEResponse_fails_iff [of jsonText "''data: x''"] e n show ?thesis
    by blast
qed

section \<open>The content extractor\<close>

lemma startsWith_prefix: "startsWith (sub @ q) sub"
  by (simp add: startsWith_def)

lemma includes_str_prefix: "includes_str (sub @ q) sub"
proof (cases "sub @ q")
  case Nil
  then show ?thesis by simp
next
  case (Cons a list)
  with startsWith_prefix [of sub q] show ?thesis by simp
qed

lemma includes_str_append: "includes_str (p @ sub @ q) sub"
proof (induction p)
  case Nil
  show ?case using includes_str_prefix by simp
next
  case (Cons c p)
  then show ?case by simp
qed

lemma includes_str_iff: "includes_str s sub \<longleftrightarrow> sublist sub s"
proof
  show "includes_str s sub \<Longrightarrow> sublist sub s"
  proof (induction s)
    case Nil
    then show ?case by simp
  next
    case (Cons c cs)
    from Cons.prems consider "startsWith (c # cs) sub" | "includes_str cs sub" by auto
    then show ?case
    proof cases
      case 1
      then have "c # cs = sub @ drop (length sub) (c # cs)"
        unfolding startsWith_def by (metis append_take_drop_id)
      then have "c # cs = [] @ sub @ drop (length sub) (c # cs)" by simp
      then show ?thesis unfolding sublist_def by blast
    next
      case 2
      with Cons.IH obtain p q where "cs = p @ sub @ q"
        unfolding sublist_def by blast
      then have "c # cs = (c # p) @ sub @ q" by simp
      then show ?thesis unfolding sublist_def by blast
    qed
  qed
next
  assume "sublist sub s"
  then obtain p q where "s = p @ sub @ q" unfolding sublist_def by blast
  then show "includes_str s sub" by (simp add: includes_str_append)
qed

lemma extract_error:
  "error response = Some e \<Longrightarrow>
     extractTextContent N response = Inl (ApiError N (code e) (message e))"
  by (simp add: extractTextContent_def)

lemma extract_content:
  "error response = None \<Longrightarrow> result response = Some r \<Longrightarrow> content r = Some items \<Longrightarrow>
     extractTextContent N response =
       Inr (join (map item_text (filter (\<lambda>item. item_type item = ''text'') items))
              [newline, newline])"
  by (simp add: extractTextContent_def)

lemma extract_no_content:
  "error response = None \<Longrightarrow> result response = Some r \<Longrightarrow> content r = None \<Longrightarrow>
     extractTextContent N response = Inl NoContent"
  by (simp add: extractTextContent_def)

text \<open>
  C3. For an envelope of the Success variant (no \<open>error\<close> field, a \<open>result\<close> object),
  \<open>extractTextContent\<close> fails with the \<open>NoContent\<close> error exactly when the result has no
  \<open>content\<close> field, and it fails in no other case; a content list that is present and
  empty, or from which the filter keeps nothing, yields the empty string.
\<close>

theorem extractTextContent_NoContent_iff:
  assumes "error response = None" and "result response = Some r"
  shows "(extractTextContent N response = Inl NoContent \<longleftrightarrow> content r = None) \<and>
         ((\<exists>e. extractTextContent N response = Inl e) \<longleftrightarrow> content r = None) \<and>
         (content r = Some [] \<longrightarrow> extractTextContent N response = Inr []) \<and>
         (\<forall>items. content r = Some items \<and>
                  filter (\<lambda>item. item_type item = ''text'') items = [] \<longrightarrow>
                  extractTextContent N response = Inr [])"
proof (cases "content r")
  case None
  with assms show ?thesis by (simp add: extract_no_content)
next
  case (Some items)
  with assms show ?thesis by (auto simp: extract_content join_Nil)
qed

theorem extractTextContent_NoContent_iff_witness:
  "extractTextContent numberToString
     \<lparr>jsonrpc = ''2.0'', resp_id = 1, error = None,
      result = Some \<lparr>content = None, tools = (None :: unit ToolDescriptor list option)\<rparr>\<rparr>
     = Inl NoContent \<and>
   extractTextContent numberToString
     \<lparr>jsonrpc = ''2.0'', resp_id = 1, error = None,
      result = Some \<lparr>content = Some [], tools = (None :: unit ToolDescriptor list option)\<rparr>\<rparr>
     = Inr [] \<and>
   extractTextContent numberToString
     \<lparr>jsonrpc = ''2.0'', resp_id = 1, error = None,
      result = Some \<lparr>content = Some [\<lparr>item_type = ''image'', item_text = ''ignored''\<rparr>],
                      tools = (None :: unit ToolDescriptor list option)\<rparr>\<rparr>
     = Inr []"
proof -
  let ?r1 = "\<lparr>content = None, tools = (None :: unit ToolDescriptor list option)\<rparr>"
  let ?r2 = "\<lparr>content = Some [], tools = (None :: unit ToolDescriptor list option)\<rparr>"
  let ?r3 = "\<lparr>content = Some [\<lparr>item_type = ''image'', item_text = ''ignored''\<rparr>],
              tools = (None :: unit ToolDescriptor list option)\<rparr>"
  have a: "extractTextContent numberToString
             \<lparr>jsonrpc = ''2.0'', resp_id = 1, error = None, result = Some ?r1\<rparr>
             = Inl NoContent"
    using extractTextContent_NoContent_iff
            [of "\<lparr>jsonrpc = ''2.0'', resp_id = 1, error = None, result = Some ?r1\<rparr>" ?r1
                numberToString]
    by simp
  have b: "extractTextContent numberToString
             \<lparr>jsonrpc = ''2.0'', resp_id = 1, error = None, result = Some ?r2\<rparr>
             = Inr []"
    using extractTextContent_NoContent_iff
            [of "\<lparr>jsonrpc = ''2.0'', resp_id = 1, error = None, result = Some ?r2\<rparr>" ?r2
                numberToString]
    by simp
  have c: "extractTextContent numberToString
             \<lparr>jsonrpc = ''2.0'', resp_id = 1, error = None, result = Some ?r3\<rparr>
             = Inr []"
    using extractTextContent_NoContent_iff
            [of "\<lparr>jsonrpc = ''2.0'', resp_id = 1, error = None, result = Some ?r3\<rparr>" ?r3
                numberToString]
    by simp
  from a b c show ?thesis by (intro conjI)
qed

text \<open>
  C4. For an envelope of the Failure variant (an \<open>error\<close> object with an integer code and
  a message), \<open>extractTextContent\<close> fails with the \<open>ApiError\<close> error, whose message
  contains the code as the runtime prints it and the message of the envelope, unchanged.
  This holds for every number-to-string conversion \<open>N\<close>; with the runtime's, which
  prints an integer up to \<open>2^53\<close> in magnitude as its decimal numeral, the message
  contains the decimal numeral of every code in that range.
\<close>

theorem extractTextContent_ApiError:
  assumes "error response = Some e"
  shows "extractTextContent N response =
           Inl (Error (''Exa API error: '' @ N (code e) @ '' - '' @ message e)) \<and>
         includes_str (''Exa API error: '' @ N (code e) @ '' - '' @ message e) (N (code e)) \<and>
         includes_str (''Exa API error: '' @ N (code e) @ '' - '' @ message e) (message e) \<and>
         ((\<forall>n. \<bar>n\<bar> \<le> 2 ^ 53 \<longrightarrow> N n = numberToString n) \<and> \<bar>code e\<bar> \<le> 2 ^ 53 \<longrightarrow>
            includes_str (''Exa API error: '' @ N (code e) @ '' - '' @ message e)
              (numberToString (code e)))"
proof -
  have c: "includes_str (''Exa API error: '' @ N (code e) @ ('' - '' @ message e)) (N (code e))"
    by (rule includes_str_append)
  have "includes_str ((''Exa API error: '' @ N (code e) @ '' - '') @ message e @ []) (message e)"
    by (rule includes_str_append)
  then have m: "includes_str (''Exa API error: '' @ N (code e) @ '' - '' @ message e) (message e)"
    by simp
  have d: "includes_str (''Exa API error: '' @ N (code e) @ '' - '' @ message e)
             (numberToString (code e))"
    if "\<forall>n. \<bar>n\<bar> \<le> 2 ^ 53 \<longrightarrow> N n = numberToString n" and "\<bar>code e\<bar> \<le> 2 ^ 53"
  proof -
    from that have "N (code e) = numberToString (code e)" by blast
    with c show ?thesis by simp
  qed
  from extract_error [OF assms, of N]
  have "extractTextContent N response
          = Inl (Error (''Exa API error: '' @ N (code e) @ '' - '' @ message e))"
    by (simp add: ApiError_def)
  with c m d show ?thesis by blast
qed

theorem extractTextContent_ApiError_witness:
  "extractTextContent numberToString
     \<lparr>jsonrpc = ''2.0'', resp_id = 1,
      error = Some \<lparr>code = 400, message = ''Bad request''\<rparr>,
      result = (None :: unit ResultObject option)\<rparr>
     = Inl (Error ''Exa API error: 400 - Bad request'') \<and>
   includes_str ''Exa API error: 400 - Bad request'' ''400'' \<and>
   includes_str ''Exa API error: 400 - Bad request'' ''Bad request''"
proof -
  have n: "numberToString 400 = ''400''" by code_simp
  show ?thesis
    using extractTextContent_ApiError
            [of "\<lparr>jsonrpc = ''2.0'', resp_id = 1,
                  error = Some \<lparr>code = 400, message = ''Bad request''\<rparr>,
                  result = (None :: unit ResultObject option)\<rparr>"
                "\<lparr>code = 400, message = ''Bad request''\<rparr>" numberToString]
    by (simp add: n)
qed

text \<open>
  C5. For a Success envelope with a content list, \<open>extractTextContent\<close> returns the
  \<open>text\<close> fields of the items whose type tag is \<open>text\<close>, in the original order, with
  two line feeds (one blank line) between neighbours; the other items are dropped.
\<close>

theorem extractTextContent_joins_text_items:
  assumes "error response = None" and "result response = Some r" and "content r = Some items"
  shows "extractTextContent N response =
           Inr (joined_with [newline, newline]
                  (map item_text (filter (\<lambda>item. item_type item = ''text'') items)))"
  using extract_content [OF assms] by (simp add: join_joined_with)

theorem extractTextContent_joins_text_items_witness:
  "extractTextContent numberToString
     \<lparr>jsonrpc = ''2.0'', resp_id = 1, error = None,
      result = Some \<lparr>content = Some [\<lparr>item_type = ''text'', item_text = ''Hello''\<rparr>,
                                      \<lparr>item_type = ''image'', item_text = ''ignored''\<rparr>,
                                      \<lparr>item_type = ''text'', item_text = ''World''\<rparr>],
                      tools = (None :: unit ToolDescriptor list option)\<rparr>\<rparr>
     = Inr ''Hello\<newline>\<newline>World''"
proof -
  let ?items = "[\<lparr>item_type = ''text'', item_text = ''Hello''\<rparr>,
                 \<lparr>item_type = ''image'', item_text = ''ignored''\<rparr>,
                 \<lparr>item_type = ''text'', item_text = ''World''\<rparr>]"
  let ?r = "\<lparr>content = Some ?items, tools = (None :: unit ToolDescriptor list option)\<rparr>"
  show ?thesis
    using extractTextContent_joins_text_items
            [of "\<lparr>jsonrpc = ''2.0'', resp_id = 1, error = None, result = Some ?r\<rparr>" ?r ?items
                numberToString]
    by (simp add: newline_def)
qed

section \<open>The content extractor on an unchecked value\<close>

text \<open>
  On the JSON value of an envelope of the declared types, the extractor of this section
  is the one of the typed envelopes.
\<close>

lemma sequence_Inr: "sequence (map Inr xs) = Inr xs"
  by (induction xs) simp_all

lemma embedItem_not_null: "JNull \<notin> set (map embedItem items)"
  by (induction items) (simp_all add: embedItem_def)

lemma filter_embedItem:
  "filter (\<lambda>item. getProp item ''type'' = Some (JString ''text'')) (map embedItem items)
     = map embedItem (filter (\<lambda>item. item_type item = ''text'') items)"
  by (induction items) (simp_all add: embedItem_def getProp_def)

lemma texts_embedItem:
  "map (\<lambda>item. case getProp item ''text'' of
                  None \<Rightarrow> Inr [] | Some JNull \<Rightarrow> Inr [] | Some t \<Rightarrow> toStr N t)
       (map embedItem items)
     = map Inr (map item_text items)"
  by (induction items) (simp_all add: embedItem_def getProp_def)

lemma raw_content_outcome:
  assumes "map_of kvs ''error'' = None" and "map_of kvs ''result'' = Some (JObject props)"
    and "map_of props ''content'' = Some (JArray items)" and "JNull \<notin> set items"
  shows "extractTextContentRaw N Z (JObject kvs) =
           (case sequence
                   (map (\<lambda>item. case getProp item ''text'' of
                                   None \<Rightarrow> Inr []
                                 | Some JNull \<Rightarrow> Inr []
                                 | Some t \<Rightarrow> toStr N t)
                      (filter (\<lambda>item. getProp item ''type'' = Some (JString ''text'')) items)) of
              Inl e \<Rightarrow> Inl e
            | Inr texts \<Rightarrow> Inr (join texts [newline, newline]))"
  using assms by (simp add: extractTextContentRaw_def getProp_def truthy_def)

lemma extractTextContentRaw_embed:
  "extractTextContentRaw N Z (embedResponse response) = extractTextContent N response"
proof (cases "error response")
  case (Some e)
  then show ?thesis
    by (simp add: extractTextContentRaw_def extractTextContent_def embedResponse_def
          embedError_def getProp_def toStrOpt_def ApiError_def)
next
  case None
  show ?thesis
  proof (cases "result response")
    case N2: None
    with None show ?thesis
      by (simp add: extractTextContentRaw_def extractTextContent_def embedResponse_def
            getProp_def truthy_def)
  next
    case (Some r)
    show ?thesis
    proof (cases "content r")
      case N3: None
      with None Some show ?thesis
        by (simp add: extractTextContentRaw_def extractTextContent_def embedResponse_def
              embedResult_def getProp_def truthy_def split: option.splits)
    next
      case S3: (Some items)
      obtain kvs where kvs: "embedResponse response = JObject kvs"
        "map_of kvs ''error'' = None" "map_of kvs ''result'' = Some (embedResult r)"
        using None Some by (simp add: embedResponse_def)
      obtain props where props: "embedResult r = JObject props"
        "map_of props ''content'' = Some (JArray (map embedItem items))"
        using S3 by (simp add: embedResult_def)
      have "extractTextContentRaw N Z (JObject kvs) =
              Inr (join (map item_text (filter (\<lambda>item. item_type item = ''text'') items))
                     [newline, newline])"
        using raw_content_outcome [OF kvs(2) kvs(3) [unfolded props(1)] props(2)
                embedItem_not_null, of N Z]
        by (simp only: filter_embedItem texts_embedItem sequence_Inr sum.case)
      with kvs(1) None Some S3 show ?thesis
        by (simp add: extract_content)
    qed
  qed
qed

lemma raw_error_outcome:
  "map_of kvs ''error'' = Some err \<Longrightarrow>
     extractTextContentRaw N Z (JObject kvs) =
       (case err of
          JNull \<Rightarrow> Inl (TypeError ''Cannot read properties of null'')
        | _ \<Rightarrow>
            (case toStrOpt N (getProp err ''code'') of
               Inl e \<Rightarrow> Inl e
             | Inr c \<Rightarrow>
                 (case toStrOpt N (getProp err ''message'') of
                    Inl e \<Rightarrow> Inl e
                  | Inr m \<Rightarrow> Inl (Error (''Exa API error: '' @ c @ '' - '' @ m)))))"
  by (simp add: extractTextContentRaw_def getProp_def)

text \<open>
  C10, as stated for every decoded envelope with an \<open>error\<close> field and a \<open>result\<close>
  field, fails: the test \<open>"error" in response\<close> asks for the key only. When the key
  holds \<open>null\<close>, reading \<open>response.error.code\<close> throws a \<open>TypeError\<close>, and the
  failure is not the \<open>ApiError\<close> error.
\<close>

theorem error_null_is_not_ApiError:
  "map_of [(''jsonrpc'', JString ''2.0''), (''id'', JNumber 1), (''error'', JNull),
           (''result'', JObject [(''content'',
              JArray [JObject [(''type'', JString ''text''), (''text'', JString ''ok'')]])])]
     ''error'' = Some (JNull :: int json) \<and>
   map_of [(''jsonrpc'', JString ''2.0''), (''id'', JNumber 1), (''error'', JNull),
           (''result'', JObject [(''content'',
              JArray [JObject [(''type'', JString ''text''), (''text'', JString ''ok'')]])])]
     ''result''
     = Some (JObject [(''content'',
               JArray [JObject [(''type'', JString ''text''), (''text'', JString ''ok'')]])]
             :: int json) \<and>
   extractTextContentRaw numberToString isZero
     (JObject [(''jsonrpc'', JString ''2.0''), (''id'', JNumber 1), (''error'', JNull),
               (''result'', JObject [(''content'',
                  JArray [JObject [(''type'', JString ''text''), (''text'', JString ''ok'')]])])])
     = Inl (TypeError ''Cannot read properties of null'') \<and>
   isTypeError (TypeError ''Cannot read properties of null'')"
  by (simp add: extractTextContentRaw_def getProp_def isTypeError_def)

text \<open>
  C10, amended. For every decoded envelope that carries an \<open>error\<close> field and a
  \<open>result\<close> field, the error check takes priority: the outcome depends on the value of
  the \<open>error\<close> field alone, whatever the \<open>result\<close> field and the other fields hold.
  When that value is not \<open>null\<close> and its code and message convert to strings, in
  particular when it is an object with a number as code and a string as message, the
  extractor fails with the \<open>ApiError\<close> error; when it is \<open>null\<close>, the extractor fails
  with a \<open>TypeError\<close>.
\<close>

theorem extractTextContentRaw_error_first:
  assumes "map_of kvs ''error'' = Some err" and "map_of kvs ''result'' = Some res"
  shows "(\<forall>kvs'. map_of kvs' ''error'' = Some err \<longrightarrow>
            extractTextContentRaw N Z (JObject kvs') = extractTextContentRaw N Z (JObject kvs)) \<and>
         (\<forall>c m. err \<noteq> JNull \<and> toStrOpt N (getProp err ''code'') = Inr c \<and>
                toStrOpt N (getProp err ''message'') = Inr m \<longrightarrow>
            extractTextContentRaw N Z (JObject kvs)
              = Inl (Error (''Exa API error: '' @ c @ '' - '' @ m))) \<and>
         (\<forall>props n s. err = JObject props \<and> map_of props ''code'' = Some (JNumber n) \<and>
                map_of props ''message'' = Some (JString s) \<longrightarrow>
            extractTextContentRaw N Z (JObject kvs) = Inl (ApiError N n s)) \<and>
         (err = JNull \<longrightarrow>
            (\<exists>e. extractTextContentRaw N Z (JObject kvs) = Inl e \<and> isTypeError e))"
proof (intro conjI allI impI)
  fix kvs' :: "(string \<times> 'a json) list"
  assume "map_of kvs' ''error'' = Some err"
  then show "extractTextContentRaw N Z (JObject kvs') = extractTextContentRaw N Z (JObject kvs)"
    by (simp add: raw_error_outcome assms(1))
next
  fix c m
  assume "err \<noteq> JNull \<and> toStrOpt N (getProp err ''code'') = Inr c \<and>
          toStrOpt N (getProp err ''message'') = Inr m"
  then show "extractTextContentRaw N Z (JObject kvs)
               = Inl (Error (''Exa API error: '' @ c @ '' - '' @ m))"
    by (cases err) (simp_all add: raw_error_outcome [OF assms(1)])
next
  fix props n s
  assume "err = JObject props \<and> map_of props ''code'' = Some (JNumber n) \<and>
          map_of props ''message'' = Some (JString s)"
  then show "extractTextContentRaw N Z (JObject kvs) = Inl (ApiError N n s)"
    by (simp add: raw_error_outcome [OF assms(1)] getProp_def toStrOpt_def ApiError_def)
next
  assume "err = JNull"
  then show "\<exists>e. extractTextContentRaw N Z (JObject kvs) = Inl e \<and> isTypeError e"
    by (simp add: raw_error_outcome [OF assms(1)] isTypeError_def)
qed

theorem extractTextContentRaw_error_first_witness:
  "map_of [(''jsonrpc'', JString ''2.0''), (''id'', JNumber 1),
           (''error'', JObject [(''code'', JNumber (- 32602)),
                                (''message'', JString ''Invalid params'')]),
           (''result'', JObject [(''content'',
              JArray [JObject [(''type'', JString ''text''), (''text'', JString ''ok'')]])])]
     ''error''
     = Some (JObject [(''code'', JNumber (- 32602)), (''message'', JString ''Invalid params'')]
             :: int json) \<and>
   map_of [(''jsonrpc'', JString ''2.0''), (''id'', JNumber 1),
           (''error'', JObject [(''code'', JNumber (- 32602)),
                                (''message'', JString ''Invalid params'')]),
           (''result'', JObject [(''content'',
              JArray [JObject [(''type'', JString ''text''), (''text'', JString ''ok'')]])])]
     ''result''
     = Some (JObject [(''content'',
               JArray [JObject [(''type'', JString ''text''), (''text'', JString ''ok'')]])]
             :: int json) \<and>
   extractTextContentRaw numberToString isZero
     (JObject [(''jsonrpc'', JString ''2.0''), (''id'', JNumber 1),
               (''error'', JObject [(''code'', JNumber (- 32602)),
                                    (''message'', JString ''Invalid params'')]),
               (''result'', JObject [(''content'',
                  JArray [JObject [(''type'', JString ''text''), (''text'', JString ''ok'')]])])])
     = Inl (Error ''Exa API error: -32602 - Invalid params'')"
proof -
  let ?err = "JObject [(''code'', JNumber (- 32602)), (''message'', JString ''Invalid params'')]
                :: int json"
  let ?res = "JObject [(''content'',
                JArray [JObject [(''type'', JString ''text''), (''text'', JString ''ok'')]])]
                :: int json"
  let ?kvs = "[(''jsonrpc'', JString ''2.0''), (''id'', JNumber 1), (''error'', ?err),
               (''result'', ?res)]"
  have h1: "map_of ?kvs ''error'' = Some ?err" by simp
  have h2: "map_of ?kvs ''result'' = Some ?res" by simp
  have n: "ApiError numberToString (- 32602) ''Invalid params''
             = Error ''Exa API error: -32602 - Invalid params''"
    by (simp add: ApiError_def numberToString_def natToString.simps)
  from extractTextContentRaw_error_first [OF h1 h2, of numberToString isZero]
  have "extractTextContentRaw numberToString isZero (JObject ?kvs)
          = Inl (ApiError numberToString (- 32602) ''Invalid params'')"
    by simp
  with n have r: "extractTextContentRaw numberToString isZero (JObject ?kvs)
          = Inl (Error ''Exa API error: -32602 - Invalid params'')"
    by (simp only:)
  from h1 h2 r show ?thesis by (intro conjI)
qed

section \<open>The call: timeout and call ids\<close>

lemma Timeout_eq: "Timeout = Error ''Exa request timed out after 30s''"
  by code_simp

lemma callExa_request:
  "fst (fst (callExa S J fetchFn method params st)) =
     \<lparr>req_jsonrpc = ''2.0'', req_id = increment (requestIdCounter st), req_method = method,
      req_params = params\<rparr>"
  by (simp add: callExa_def Let_def)

lemma callExa_state:
  "snd (callExa S J fetchFn method params st) =
     st\<lparr>requestIdCounter := increment (requestIdCounter st)\<rparr>"
  by (simp add: callExa_def Let_def)

lemma callExa_aborted:
  assumes "S (fst (fst (callExa S J fetchFn method params st))) = Inr b"
    and "aborted (fetchFn EXA_URL (requestInit b))"
  shows "snd (fst (callExa S J fetchFn method params st)) = Inl Timeout"
proof (cases "fetchFn EXA_URL (requestInit b)")
  case (Inl e)
  with assms show ?thesis
    by (simp add: callExa_def Let_def aborted_def)
next
  case (Inr response)
  with assms obtain e where "ok response" "text_result response = Inl e" "isAbortError e"
    by (auto simp: aborted_def split: sum.splits)
  with Inr assms(1) show ?thesis
    by (simp add: callExa_def Let_def)
qed

text \<open>
  C8. A call whose exchange is cancelled by the abort controller, armed with
  \<open>REQUEST_TIMEOUT_MS\<close> = 30 seconds, fails with the \<open>Timeout\<close> error; its message
  contains \<open>timed out\<close> and states the number of seconds, 30.
\<close>

theorem callExa_abort_is_Timeout:
  assumes "S (fst (fst (callExa S J fetchFn method params st))) = Inr b"
    and "aborted (fetchFn EXA_URL (requestInit b))"
  shows "snd (fst (callExa S J fetchFn method params st))
           = Inl (Error ''Exa request timed out after 30s'') \<and>
         includes_str ''Exa request timed out after 30s'' ''timed out'' \<and>
         includes_str ''Exa request timed out after 30s''
           (numberToString (REQUEST_TIMEOUT_MS div 1000)) \<and>
         REQUEST_TIMEOUT_MS div 1000 = 30"
proof -
  have a: "includes_str ''Exa request timed out after 30s'' ''timed out''"
    by code_simp
  have b: "includes_str ''Exa request timed out after 30s''
             (numberToString (REQUEST_TIMEOUT_MS div 1000))"
    by code_simp
  have c: "REQUEST_TIMEOUT_MS div 1000 = 30"
    by (simp add: REQUEST_TIMEOUT_MS_def)
  from callExa_aborted [of S J fetchFn "method" params st b, OF assms]
  have "snd (fst (callExa S J fetchFn method params st))
           = Inl (Error ''Exa request timed out after 30s'')"
    by (simp only: Timeout_eq)
  with a b c show ?thesis by (intro conjI)
qed

theorem callExa_abort_is_Timeout_witness:
  \<open>stringifyRequest (fst (fst (callExa stringifyRequest jsonText abortingFetch ''tools/call'' None initialState)))
     = Inr ''{"jsonrpc":"2.0","id":1,"method":"tools/call"}'' \<and>
   aborted (abortingFetch EXA_URL (requestInit ''{"jsonrpc":"2.0","id":1,"method":"tools/call"}'')) \<and>
   snd (fst (callExa stringifyRequest jsonText abortingFetch ''tools/call'' None initialState))
     = Inl (Error ''Exa request timed out after 30s'')\<close>
proof -
  have h1: \<open>stringifyRequest (fst (fst (callExa stringifyRequest jsonText abortingFetch ''tools/call'' None initialState)))
     = Inr ''{"jsonrpc":"2.0","id":1,"method":"tools/call"}''\<close>
    by code_simp
  have h2: \<open>aborted (abortingFetch EXA_URL (requestInit ''{"jsonrpc":"2.0","id":1,"method":"tools/call"}''))\<close>
    by (simp add: aborted_def abortingFetch_def isAbortError_def)
  from callExa_abort_is_Timeout
         [of stringifyRequest jsonText abortingFetch "''tools/call''" None initialState, OF h1 h2]
  have r: "snd (fst (callExa stringifyRequest jsonText abortingFetch ''tools/call'' None initialState))
     = Inl (Error ''Exa request timed out after 30s'')"
    by (rule conjunct1)
  from h1 h2 r show ?thesis by (intro conjI)
qed

lemma callIds_Nil: "callIds S J [] st = []"
  by (simp add: callIds_def)

lemma callIds_Cons:
  "callIds S J ((method, params, fetchFn) # calls) st =
     increment (requestIdCounter st)
       # callIds S J calls (st\<lparr>requestIdCounter := increment (requestIdCounter st)\<rparr>)"
proof -
  obtain r st' where c: "callExa S J fetchFn method params st = (r, st')"
    by (cases "callExa S J fetchFn method params st")
  from c callExa_state [of S J fetchFn "method" params st]
  have st': "st' = st\<lparr>requestIdCounter := increment (requestIdCounter st)\<rparr>" by simp
  from c callExa_request [of S J fetchFn "method" params st]
  have "req_id (fst r) = increment (requestIdCounter st)" by simp
  with c st' show ?thesis by (simp add: callIds_def)
qed

lemma length_callIds: "length (callIds S J calls st) = length calls"
  by (induction calls arbitrary: st) (auto simp: callIds_Nil callIds_Cons)

lemma callIds_nth:
  "requestIdCounter st \<le> 2 ^ 53 \<Longrightarrow> k < length calls \<Longrightarrow>
     callIds S J calls st ! k = min (requestIdCounter st + 1 + int k) (2 ^ 53)"
proof (induction calls arbitrary: st k)
  case Nil
  then show ?case by simp
next
  case (Cons c calls)
  obtain m p f where c: "c = (m, p, f)"
    by (cases c)
  let ?st' = "st\<lparr>requestIdCounter := increment (requestIdCounter st)\<rparr>"
  have le: "requestIdCounter ?st' \<le> 2 ^ 53"
    using Cons.prems(1) by (simp add: increment_def)
  show ?case
  proof (cases k)
    case 0
    with Cons.prems(1) show ?thesis
      by (simp add: c callIds_Cons increment_def)
  next
    case (Suc k')
    with Cons.prems(2) have "k' < length calls" by simp
    from Cons.IH [OF le this]
    have "callIds S J calls ?st' ! k' = min (increment (requestIdCounter st) + 1 + int k') (2 ^ 53)"
      by simp
    with Suc Cons.prems(1) show ?thesis
      by (simp add: c callIds_Cons increment_def min_def)
  qed
qed

text \<open>
  C9, as stated for every sequence of calls, fails: the counter is a double, and from
  \<open>2^53\<close> on the increment no longer changes it. In a process that makes
  \<open>2^53 + 1\<close> calls, the last two envelopes carry the same id, \<open>2^53\<close>.
\<close>

theorem callIds_repeat_after_2_53:
  "callIds stringifyRequest jsonText (replicate 9007199254740993 toolsCall) initialState
     ! 9007199254740991 = 9007199254740992 \<and>
   callIds stringifyRequest jsonText (replicate 9007199254740993 toolsCall) initialState
     ! 9007199254740992 = 9007199254740992 \<and>
   \<not> distinct (callIds stringifyRequest jsonText (replicate 9007199254740993 toolsCall)
                 initialState)"
proof -
  let ?ids = "callIds stringifyRequest jsonText (replicate 9007199254740993 toolsCall) initialState"
  have c: "requestIdCounter initialState \<le> 2 ^ 53"
    by (simp add: initialState_def)
  have a: "?ids ! 9007199254740991 = 9007199254740992"
    using callIds_nth [OF c, of 9007199254740991 "replicate 9007199254740993 toolsCall"
                         stringifyRequest jsonText]
    by (simp add: initialState_def)
  have b: "?ids ! 9007199254740992 = 9007199254740992"
    using callIds_nth [OF c, of 9007199254740992 "replicate 9007199254740993 toolsCall"
                         stringifyRequest jsonText]
    by (simp add: initialState_def)
  have len: "length ?ids = 9007199254740993"
    by (simp add: length_callIds)
  have "\<not> distinct ?ids"
  proof
    assume d: "distinct ?ids"
    from len have "(9007199254740991 :: nat) < length ?ids"
      and "(9007199254740992 :: nat) < length ?ids" by simp_all
    with d have "?ids ! 9007199254740991 \<noteq> ?ids ! 9007199254740992"
      by (simp add: nth_eq_iff_index_eq)
    with a b show False by simp
  qed
  with a b show ?thesis by (intro conjI)
qed

text \<open>
  C9, amended. For every sequence of at most \<open>2^53\<close> calls from the start of the
  process, the ids of the envelopes are \<open>1, 2, 3, \<dots>\<close> in call order: positive,
  strictly increasing and unique. A call changes nothing of the state but the counter,
  which is all the state there is.
\<close>

theorem callIds_strictly_increasing:
  assumes "length calls \<le> 2 ^ 53"
  shows "callIds S J calls initialState = map (\<lambda>k. int k + 1) [0..<length calls] \<and>
         sorted_wrt (<) (callIds S J calls initialState) \<and>
         distinct (callIds S J calls initialState) \<and>
         (\<forall>i \<in> set (callIds S J calls initialState). 0 < i) \<and>
         (\<forall>fetchFn method params st.
            snd (callExa S J fetchFn method params st)
              = st\<lparr>requestIdCounter := increment (requestIdCounter st)\<rparr>)"
proof -
  let ?ids = "callIds S J calls initialState"
  have nth: "?ids ! k = int k + 1" if "k < length calls" for k
  proof -
    from that assms have "int k + 1 \<le> 2 ^ 53" by simp
    with callIds_nth [of initialState k calls S J] that show ?thesis
      by (simp add: initialState_def min_def)
  qed
  have eq: "?ids = map (\<lambda>k. int k + 1) [0..<length calls]"
    by (rule nth_equalityI) (simp_all add: length_callIds nth)
  have srt: "sorted_wrt (<) ?ids"
    by (simp add: sorted_wrt_iff_nth_less length_callIds nth)
  have dst: "distinct ?ids"
    by (simp add: distinct_conv_nth length_callIds nth)
  have pos: "\<forall>i \<in> set ?ids. 0 < i"
    by (auto simp: in_set_conv_nth length_callIds nth)
  from eq srt dst pos callExa_state show ?thesis by blast
qed

theorem callIds_strictly_increasing_witness:
  "length [toolsCall, (''tools/list'', None, mockFetch ''{}'' 200), toolsCall] \<le> (2 :: nat) ^ 53 \<and>
   callIds stringifyRequest jsonText
     [toolsCall, (''tools/list'', None, mockFetch ''{}'' 200), toolsCall] initialState = [1, 2, 3] \<and>
   requestIdCounter (snd (callExa stringifyRequest jsonText abortingFetch ''tools/call'' None
                            initialState)) = 1"
proof -
  let ?calls = "[toolsCall, (''tools/list'', None, mockFetch ''{}'' 200), toolsCall]"
  have h: "length ?calls \<le> (2 :: nat) ^ 53" by simp
  note t = callIds_strictly_increasing [of ?calls stringifyRequest jsonText, OF h]
  from t have "callIds stringifyRequest jsonText ?calls initialState
                 = map (\<lambda>k. int k + 1) [0..<length ?calls]"
    by (rule conjunct1)
  moreover have "map (\<lambda>k. int k + 1) [0..<length ?calls] = [1, 2, 3]"
    by (simp add: upt_rec)
  ultimately have ids: "callIds stringifyRequest jsonText ?calls initialState = [1, 2, 3]"
    by (simp only:)
  from t have "snd (callExa stringifyRequest jsonText abortingFetch ''tools/call'' None initialState)
                 = initialState\<lparr>requestIdCounter := increment (requestIdCounter initialState)\<rparr>"
    by blast
  then have st: "requestIdCounter (snd (callExa stringifyRequest jsonText abortingFetch
                    ''tools/call'' None initialState)) = 1"
    by (simp add: initialState_def increment_def)
  from h ids st show ?thesis by (intro conjI)
qed

end
